theory Spec2Isabelle
  imports Main "HOL-Library.Stream"
begin

section \<open>Learning-Raft: the election timer and the peer call wrapper\<close>

text \<open>
  The development embeds the two source files of the repository: \<^verbatim>\<open>raft/raft.go\<close>
  (the consensus module with its election timer) and the file holding \<^verbatim>\<open>Server.Call\<close>.
  Go's \<^verbatim>\<open>int\<close>, \<^verbatim>\<open>time.Duration\<close> and \<^verbatim>\<open>time.Time\<close> values are integers; where the
  source computes with them, the 64-bit wrap-around is written out (\<open>wrap64\<close>).
  Everything a function does besides returning a value (taking a mutex, logging, calling
  a peer) is recorded in the list of events it returns, in program order.
\<close>

subsection \<open>Go integers, durations and instants\<close>

definition wrap64 :: "int \<Rightarrow> int" where
  "wrap64 x = (x + 2 ^ 63) mod 2 ^ 64 - 2 ^ 63"

text \<open>\<^verbatim>\<open>time.Millisecond\<close>: a \<^verbatim>\<open>time.Duration\<close> counts nanoseconds.\<close>

definition Millisecond :: int where
  "Millisecond = 1000000"

definition maxDuration :: int where
  "maxDuration = 2 ^ 63 - 1"

definition minDuration :: int where
  "minDuration = - (2 ^ 63)"

text \<open>
  \<^verbatim>\<open>t.Sub(u)\<close> of package time: the difference of two instants (here nanoseconds on one
  clock), saturated at the largest and the smallest duration. \<^verbatim>\<open>time.Since(u)\<close> is
  \<^verbatim>\<open>time.Now().Sub(u)\<close>; the reading of the clock is the argument \<open>now\<close>.
\<close>

definition time_Sub :: "int \<Rightarrow> int \<Rightarrow> int" where
  "time_Sub t u =
     (let d = t - u in
      if maxDuration < d then maxDuration
      else if d < minDuration then minDuration
      else d)"

definition time_Since :: "int \<Rightarrow> int \<Rightarrow> int" where
  "time_Since now u = time_Sub now u"

subsection \<open>Formatting of integers (\<^verbatim>\<open>%d\<close>)\<close>

definition digit_char :: "nat \<Rightarrow> char" where
  "digit_char d = ''0123456789'' ! d"

fun show_nat :: "nat \<Rightarrow> string" where
  "show_nat n = (if n < 10 then [digit_char n] else show_nat (n div 10) @ [digit_char (n mod 10)])"

declare show_nat.simps [simp del]

definition show_int :: "int \<Rightarrow> string" where
  "show_int i = (if i < 0 then CHR ''-'' # show_nat (nat (- i)) else show_nat (nat i))"

subsection \<open>The consensus module (\<^verbatim>\<open>raft.go\<close>)\<close>

datatype CMState = Follower | Candidate | Leader | Dead

text \<open>
  The fields of \<^verbatim>\<open>ConsensusModule\<close>. The mutex \<^verbatim>\<open>mu\<close> is not a field of the record: taking
  and releasing it are events. The back pointer \<^verbatim>\<open>server\<close> is not read by the timer and is
  left out. The field \<^verbatim>\<open>id\<close> is named \<open>cm_id\<close>.
\<close>

record ConsensusModule =
  cm_id :: int
  peerIds :: "int list"
  state :: CMState
  electionResetEvent :: int
  currentTerm :: int
  votedFor :: int

datatype mutex = CM_mu | Server_mu

datatype go_value = IntV int | StateV CMState

text \<open>The tasks that a task can start: an election timer, a vote request to a peer.\<close>

datatype task = ElectionTimer | VoteRequest int

datatype event =
    Lock mutex
  | Unlock mutex
  | NewTicker int
  | TickerRecv
  | TickerStop
  | LogPrintf string "go_value list"
  | StartElection
  | MapRead int
  | RpcCall int string
  | ApplyReply
  | Spawn task

text \<open>\<^verbatim>\<open>dlog\<close>: \<^verbatim>\<open>DebugCM\<close> is the constant 1, so the line is always printed.\<close>

definition DebugCM :: int where
  "DebugCM = 1"

definition dlog :: "ConsensusModule \<Rightarrow> string \<Rightarrow> go_value list \<Rightarrow> event list" where
  "dlog cm format args =
     (if 0 < DebugCM then [LogPrintf (''['' @ show_int (cm_id cm) @ ''] '' @ format) args]
      else [])"

subsection \<open>The random source and \<^verbatim>\<open>electionTimeout\<close>\<close>

text \<open>
  The random source is the stream of the values that \<^verbatim>\<open>rand.Intn\<close> is going to return;
  each call takes the head. Package math/rand documents \<^verbatim>\<open>Intn(n)\<close> as returning a
  number of the half-open interval \<open>[0, n)\<close>: \<open>Intn_range\<close> says so of the next draw.
\<close>

definition rand_Intn :: "int \<Rightarrow> int stream \<Rightarrow> int \<times> int stream" where
  "rand_Intn n src = (shd src, stl src)"

definition Intn_range :: "int \<Rightarrow> int stream \<Rightarrow> bool" where
  "Intn_range n src = (0 \<le> shd src \<and> shd src < n)"

definition electionTimeout :: "int stream \<Rightarrow> int \<times> int stream" where
  "electionTimeout src =
     (let (r, src') = rand_Intn 150 src
      in (wrap64 (wrap64 (150 + r) * Millisecond), src'))"

subsection \<open>\<^verbatim>\<open>runElectionTimer\<close>\<close>

text \<open>
  One pass through the body of the loop, after the ticker has delivered: the module is
  read and written under \<^verbatim>\<open>cm.mu\<close>. The callee \<^verbatim>\<open>startElection\<close> is not part of the
  source files; the timer is modelled for every function in its place (the first
  argument). \<open>now\<close> is the clock read by \<^verbatim>\<open>time.Since\<close>.
\<close>

datatype tick_outcome = KeepWaiting | BailState | BailTerm | Fired

definition tick ::
  "(ConsensusModule \<Rightarrow> ConsensusModule) \<Rightarrow> int \<Rightarrow> int \<Rightarrow> int \<Rightarrow> ConsensusModule
     \<Rightarrow> tick_outcome \<times> ConsensusModule \<times> event list" where
  "tick startElection timeoutDuration termStarted now cm =
     (if state cm \<noteq> Candidate \<and> state cm \<noteq> Follower then
        (BailState, cm,
         [Lock CM_mu]
           @ dlog cm ''In election timer state=%s, bailing out'' [StateV (state cm)]
           @ [Unlock CM_mu])
      else if termStarted \<noteq> currentTerm cm then
        (BailTerm, cm,
         [Lock CM_mu]
           @ dlog cm ''In election timer term changed from %d to %d, bailing out''
               [IntV termStarted, IntV (currentTerm cm)]
           @ [Unlock CM_mu])
      else if timeoutDuration \<le> time_Since now (electionResetEvent cm) then
        (Fired, startElection cm, [Lock CM_mu, StartElection, Unlock CM_mu])
      else (KeepWaiting, cm, [Lock CM_mu, Unlock CM_mu]))"

text \<open>
  The loop. Between two ticks the other tasks of the node may change the module; each
  entry of the list is what they did while the timer waited for the ticker (a function on
  the module) and the clock at the tick. A list that ends before the timer has returned
  is a timer still waiting for its ticker: \<open>Running\<close>.
\<close>

datatype timer_status = Running | Returned tick_outcome

record timer_result =
  status :: timer_status
  final :: ConsensusModule
  trace :: "event list"

fun timer_loop ::
  "(ConsensusModule \<Rightarrow> ConsensusModule) \<Rightarrow> int \<Rightarrow> int
     \<Rightarrow> ((ConsensusModule \<Rightarrow> ConsensusModule) \<times> int) list \<Rightarrow> ConsensusModule
     \<Rightarrow> timer_result" where
  "timer_loop startElection timeoutDuration termStarted [] cm =
     \<lparr>status = Running, final = cm, trace = []\<rparr>"
| "timer_loop startElection timeoutDuration termStarted ((others, now) # rest) cm =
     (let (out, cm', ev) = tick startElection timeoutDuration termStarted now (others cm)
      in if out = KeepWaiting then
           (let r = timer_loop startElection timeoutDuration termStarted rest cm'
            in r\<lparr>trace := TickerRecv # ev @ trace r\<rparr>)
         else \<lparr>status = Returned out, final = cm', trace = TickerRecv # ev @ [TickerStop]\<rparr>)"

text \<open>
  The whole function: the timeout is drawn, the term is read under the mutex, the ticker
  is made, and the loop runs. The second component of the result is the random source as
  the call leaves it.
\<close>

definition runElectionTimer ::
  "(ConsensusModule \<Rightarrow> ConsensusModule) \<Rightarrow> int stream \<Rightarrow> ConsensusModule
     \<Rightarrow> ((ConsensusModule \<Rightarrow> ConsensusModule) \<times> int) list
     \<Rightarrow> timer_result \<times> int stream" where
  "runElectionTimer startElection src cm ticks =
     (let (timeoutDuration, src') = electionTimeout src;
          termStarted = currentTerm cm;
          r = timer_loop startElection timeoutDuration termStarted ticks cm
      in (r\<lparr>trace := [Lock CM_mu, Unlock CM_mu, NewTicker (wrap64 (10 * Millisecond))] @ trace r\<rparr>,
          src'))"

subsection \<open>The server and \<^verbatim>\<open>Server.Call\<close>\<close>

text \<open>
  A value of type \<^verbatim>\<open>*rpc.Client\<close> is nil (\<open>None\<close>) or a handle (\<open>Some c\<close>). The table
  \<^verbatim>\<open>peerClients\<close> is a Go map from peer ids to such pointers. The fields \<^verbatim>\<open>mu\<close> and
  \<^verbatim>\<open>cm\<close> are left out as in the consensus module; \<^verbatim>\<open>peerIds\<close> is named
  \<open>server_peerIds\<close>.
\<close>

record 'c Server =
  serverId :: int
  server_peerIds :: "int list"
  peerClients :: "int \<rightharpoonup> 'c option"

text \<open>Reading a Go map at a key it does not hold gives the zero value, here nil.\<close>

definition map_index :: "(int \<rightharpoonup> 'c option) \<Rightarrow> int \<Rightarrow> 'c option" where
  "map_index m k = (case m k of None \<Rightarrow> None | Some p \<Rightarrow> p)"

text \<open>A Go \<^verbatim>\<open>error\<close> is nil (\<open>None\<close>) or an error value with its message.\<close>

datatype go_error = ErrorString string

datatype go_panic = NilPointerDereference

text \<open>
  \<^verbatim>\<open>peer.Call(serviceMethod, args, reply)\<close> of package net/rpc. What the remote end
  answers is the parameter \<open>rpc\<close>: from the handle, the method, the arguments and the
  reply object as passed in, it gives the error returned and the reply object as left.
  On a nil pointer the method panics.
\<close>

type_synonym ('c, 'a, 'r) rpc = "'c \<Rightarrow> string \<Rightarrow> 'a \<Rightarrow> 'r \<Rightarrow> go_error option \<times> 'r"

definition Client_Call ::
  "('c, 'a, 'r) rpc \<Rightarrow> 'c option \<Rightarrow> string \<Rightarrow> 'a \<Rightarrow> 'r \<Rightarrow> go_panic + go_error option \<times> 'r" where
  "Client_Call rpc peer serviceMethod args reply =
     (case peer of
        None \<Rightarrow> Inl NilPointerDereference
      | Some c \<Rightarrow> Inr (rpc c serviceMethod args reply))"

definition Call ::
  "('c, 'a, 'r) rpc \<Rightarrow> 'c Server \<Rightarrow> int \<Rightarrow> string \<Rightarrow> 'a \<Rightarrow> 'r
     \<Rightarrow> event list \<times> (go_panic + go_error option \<times> 'r)" where
  "Call rpc s ident serviceMethod args reply =
     (let peer = map_index (peerClients s) ident;
          ev = [Lock Server_mu, MapRead ident, Unlock Server_mu]
      in if peer = None then
           (ev, Inr (Some (ErrorString (''call client '' @ show_int ident @ '' after it'' @ [CHR 0x27] @ ''s closed'')), reply))
         else (ev @ [RpcCall ident serviceMethod], Client_Call rpc peer serviceMethod args reply))"

subsection \<open>The lock discipline\<close>

text \<open>
  A task's events, read in order with the mutexes it holds: the task keeps the discipline
  when it holds no mutex at any of its calls to a peer.
\<close>

fun lock_free_calls :: "mutex list \<Rightarrow> event list \<Rightarrow> bool" where
  "lock_free_calls held [] = True"
| "lock_free_calls held (Lock m # es) = lock_free_calls (m # held) es"
| "lock_free_calls held (Unlock m # es) = lock_free_calls (remove1 m held) es"
| "lock_free_calls held (RpcCall p meth # es) = (held = [] \<and> lock_free_calls held es)"
| "lock_free_calls held (e # es) = lock_free_calls held es"

fun held_after :: "mutex list \<Rightarrow> event list \<Rightarrow> mutex list" where
  "held_after held [] = held"
| "held_after held (Lock m # es) = held_after (m # held) es"
| "held_after held (Unlock m # es) = held_after (remove1 m held) es"
| "held_after held (e # es) = held_after held es"

subsection \<open>The operations of the consensus module that the source files do not hold\<close>

text \<open>
  Modelled from the spec: \<^verbatim>\<open>startElection\<close>, which the timer calls with the mutex held and
  whose body is missing from the source files. Section 4.1: it "transitions role to
  Candidate, increments currentTerm, sets votedFor = self, refreshes electionResetEvent".
  The term is the spec's "integer counter": the increment is that of the integers. The
  clock it reads is \<open>now\<close>. The watchdog it spawns and the vote requests are other tasks.
\<close>

definition startElection :: "int \<Rightarrow> ConsensusModule \<Rightarrow> ConsensusModule" where
  "startElection now cm =
     cm\<lparr>state := Candidate, currentTerm := currentTerm cm + 1, votedFor := cm_id cm,
        electionResetEvent := now\<rparr>"

text \<open>
  Modelled from the spec: the vote "none" of section 3. The field \<^verbatim>\<open>votedFor\<close> is a Go
  \<^verbatim>\<open>int\<close>; the integer that stands for "none" is missing from the source files, and no
  statement below depends on the one chosen here.
\<close>

definition noVote :: int where
  "noVote = - 1"

text \<open>
  Modelled from the spec: \<^verbatim>\<open>reportHigherTerm(peerTerm)\<close>, missing from the source files.
  Section 4.1: "set currentTerm = peerTerm, votedFor = none, role = Follower, refresh
  electionResetEvent".
\<close>

definition reportHigherTerm :: "int \<Rightarrow> int \<Rightarrow> ConsensusModule \<Rightarrow> ConsensusModule" where
  "reportHigherTerm peerTerm now cm =
     cm\<lparr>currentTerm := peerTerm, votedFor := noVote, state := Follower,
        electionResetEvent := now\<rparr>"

text \<open>
  Modelled from the spec: a peer's term is seen in a request or a reply, in code missing
  from the source files. Section 4.1: \<^verbatim>\<open>reportHigherTerm\<close> is "called whenever any RPC
  interaction ... reveals a term greater than currentTerm", and the role transition table
  has the trigger "higher term observed" from Candidate, Leader and Follower only, with
  "no transition leaves Dead".
\<close>

definition higherTermObserved :: "int \<Rightarrow> int \<Rightarrow> ConsensusModule \<Rightarrow> ConsensusModule" where
  "higherTermObserved peerTerm now cm =
     (if state cm \<noteq> Dead \<and> currentTerm cm < peerTerm then reportHigherTerm peerTerm now cm
      else cm)"

text \<open>
  Modelled from the spec: the vote-granting policy, missing from the source files.
  Section 4.1: "a node grants a vote for (candidateTerm, candidateId) iff candidateTerm >=
  currentTerm (adopting the candidate's term first if strictly greater, per
  reportHigherTerm) and (votedFor is none or already equals candidateId for that term).
  Granting a vote refreshes electionResetEvent".
\<close>

definition voteRequested :: "int \<Rightarrow> int \<Rightarrow> int \<Rightarrow> ConsensusModule \<Rightarrow> ConsensusModule" where
  "voteRequested candidateTerm candidateId now cm =
     (let cm1 = higherTermObserved candidateTerm now cm
      in if currentTerm cm \<le> candidateTerm
            \<and> (votedFor cm1 = noVote \<or> votedFor cm1 = candidateId)
         then cm1\<lparr>votedFor := candidateId, electionResetEvent := now\<rparr>
         else cm1)"

text \<open>
  Modelled from the spec: the tally of an election reaches the majority, in code missing
  from the source files. Section 4.1: "transition to Leader for that term, if - and only
  if - role is still Candidate in that term".
\<close>

definition majorityGranted :: "int \<Rightarrow> ConsensusModule \<Rightarrow> ConsensusModule" where
  "majorityGranted electionTerm cm =
     (if state cm = Candidate \<and> currentTerm cm = electionTerm then cm\<lparr>state := Leader\<rparr>
      else cm)"

text \<open>
  Modelled from the spec: the shutdown of the node, missing from the source files. The
  role transition table of section 4.1: "any non-Dead, shutdown requested, Dead".
\<close>

definition shutdownRequested :: "ConsensusModule \<Rightarrow> ConsensusModule" where
  "shutdownRequested cm = (if state cm \<noteq> Dead then cm\<lparr>state := Dead\<rparr> else cm)"

text \<open>
  The operations on a consensus module: a tick of some election timer of the node (with
  the timeout and the term that timer holds, the clock read by the timer and the clock
  read by \<open>startElection\<close>), and the four above. The tick is the source's; it calls
  \<open>startElection\<close> as modelled above.
\<close>

datatype cm_op =
    TimerTick int int int int
  | HigherTermObserved int int
  | VoteRequested int int int
  | MajorityGranted int
  | ShutdownRequested

fun apply_op :: "cm_op \<Rightarrow> ConsensusModule \<Rightarrow> ConsensusModule" where
  "apply_op (TimerTick timeoutDuration termStarted now now') cm =
     fst (snd (tick (startElection now') timeoutDuration termStarted now cm))"
| "apply_op (HigherTermObserved peerTerm now) cm = higherTermObserved peerTerm now cm"
| "apply_op (VoteRequested candidateTerm candidateId now) cm =
     voteRequested candidateTerm candidateId now cm"
| "apply_op (MajorityGranted electionTerm) cm = majorityGranted electionTerm cm"
| "apply_op ShutdownRequested cm = shutdownRequested cm"

fun run_ops :: "cm_op list \<Rightarrow> ConsensusModule \<Rightarrow> ConsensusModule" where
  "run_ops [] cm = cm"
| "run_ops (op1 # ops) cm = run_ops ops (apply_op op1 cm)"

text \<open>
  Modelled from the spec: the task that asks one peer for its vote, missing from the
  source files. Section 5: \<^verbatim>\<open>startElection\<close> "reads/mutates state under the lock, releases
  it, then issues the network calls, then re-acquires the lock per reply to apply
  results"; section 4.2: a call that fails is a vote not granted. The call itself is the
  source's \<^verbatim>\<open>Server.Call\<close>.
\<close>

definition voteRequestTask ::
  "('c, 'a, 'r) rpc \<Rightarrow> 'c Server \<Rightarrow> int \<Rightarrow> string \<Rightarrow> 'a \<Rightarrow> 'r \<Rightarrow> event list" where
  "voteRequestTask rpc s peerId serviceMethod args reply =
     (case Call rpc s peerId serviceMethod args reply of
        (ev, Inr (None, reply')) \<Rightarrow> ev @ [Lock CM_mu, ApplyReply, Unlock CM_mu]
      | (ev, _) \<Rightarrow> ev)"

text \<open>
  Modelled from the spec: what \<^verbatim>\<open>startElection\<close>, missing from the source files, does in
  the task of its caller besides changing the module. Section 4.1: it "spawns a new
  watchdog for the new term" and "concurrently, sends a vote request to every peer";
  section 5: "one concurrent vote-request dispatch per peer". The mutex is the caller's:
  the timer of the source releases it when \<^verbatim>\<open>startElection\<close> has returned.
\<close>

definition startElection_events :: "ConsensusModule \<Rightarrow> event list" where
  "startElection_events cm = Spawn ElectionTimer # map (\<lambda>p. Spawn (VoteRequest p)) (peerIds cm)"

text \<open>
  The events of a task that calls \<^verbatim>\<open>startElection\<close>, with the events of the callee
  (\<open>body\<close>) put in where the call is made.
\<close>

definition inline_startElection :: "event list \<Rightarrow> event list \<Rightarrow> event list" where
  "inline_startElection body es =
     concat (map (\<lambda>e. if e = StartElection then StartElection # body else [e]) es)"

text \<open>
  A module for the examples: node 1 of a cluster of three, a follower in term 0 that has
  not voted, its election timer reset at the instant 0.
\<close>

definition node1 :: ConsensusModule where
  "node1 = \<lparr>cm_id = 1, peerIds = [2, 3], state = Follower, electionResetEvent = 0,
            currentTerm = 0, votedFor = noVote\<rparr>"

section \<open>Properties\<close>

subsection \<open>The election timeout\<close>

lemma wrap64_id: "- (2 ^ 63) \<le> x \<Longrightarrow> x < 2 ^ 63 \<Longrightarrow> wrap64 x = x"
  unfolding wrap64_def by (simp add: mod_pos_pos_trivial)

lemma electionTimeout_value:
  assumes "Intn_range 150 src"
  shows "fst (electionTimeout src) = (150 + shd src) * Millisecond"
proof -
  from assms have r: "0 \<le> shd src" "shd src < 150" by (simp_all add: Intn_range_def)
  then have a: "wrap64 (150 + shd src) = 150 + shd src" by (intro wrap64_id) simp_all
  from r have b: "wrap64 ((150 + shd src) * Millisecond) = (150 + shd src) * Millisecond"
    unfolding Millisecond_def by (intro wrap64_id) simp_all
  show ?thesis
    unfolding electionTimeout_def rand_Intn_def by (simp only: Let_def split_conv fst_conv a b)
qed

lemma electionTimeout_src: "snd (electionTimeout src) = stl src"
  by (simp add: electionTimeout_def rand_Intn_def)

subsection \<open>One tick and the loop\<close>

lemma dlog_events: "dlog cm f args = [LogPrintf (''['' @ show_int (cm_id cm) @ ''] '' @ f) args]"
  by (simp add: dlog_def DebugCM_def)

lemma tick_module:
  "fst (snd (tick se d t now cm)) = (if fst (tick se d t now cm) = Fired then se cm else cm)"
  by (simp add: tick_def)

lemma tick_count_StartElection:
  "count_list (snd (snd (tick se d t now cm))) StartElection = (if fst (tick se d t now cm) = Fired then 1 else 0)"
  by (simp add: tick_def dlog_events)

lemma timer_loop_Cons:
  "timer_loop se d t ((others, now) # rest) cm =
     (if fst (tick se d t now (others cm)) = KeepWaiting then
        (timer_loop se d t rest (others cm))
          \<lparr>trace := TickerRecv # [Lock CM_mu, Unlock CM_mu] @ trace (timer_loop se d t rest (others cm))\<rparr>
      else \<lparr>status = Returned (fst (tick se d t now (others cm))),
             final = fst (snd (tick se d t now (others cm))),
             trace = TickerRecv # snd (snd (tick se d t now (others cm))) @ [TickerStop]\<rparr>)"
  by (simp add: tick_def Let_def)

lemma timer_loop_count:
  "count_list (trace (timer_loop se d t ticks cm)) StartElection \<le> 1"
proof (induction ticks arbitrary: cm)
  case Nil
  show ?case by simp
next
  case (Cons x ticks)
  obtain others now where x: "x = (others, now)" by (cases x)
  show ?case
    unfolding x timer_loop_Cons
    using Cons.IH [of "others cm"] tick_count_StartElection [of se d t now "others cm"]
    by simp
qed

lemma timer_loop_append:
  "timer_loop se d t (pre @ rest) cm =
     (if status (timer_loop se d t pre cm) = Running then
        (timer_loop se d t rest (final (timer_loop se d t pre cm)))
          \<lparr>trace := trace (timer_loop se d t pre cm)
                     @ trace (timer_loop se d t rest (final (timer_loop se d t pre cm)))\<rparr>
      else timer_loop se d t pre cm)"
proof (induction pre arbitrary: cm)
  case Nil
  show ?case by simp
next
  case (Cons x pre)
  obtain others now where x: "x = (others, now)" by (cases x)
  show ?case
    unfolding x append_Cons timer_loop_Cons
    by (simp add: Cons.IH)
qed

lemma timer_loop_no_rpc: "RpcCall p m \<notin> set (trace (timer_loop se d t ticks cm))"
proof (induction ticks arbitrary: cm)
  case Nil
  show ?case by simp
next
  case (Cons x ticks)
  obtain others now where x: "x = (others, now)" by (cases x)
  have "RpcCall p m \<notin> set (snd (snd (tick se d t now (others cm))))"
    by (simp add: tick_def dlog_events)
  then show ?case
    unfolding x timer_loop_Cons using Cons.IH [of "others cm"] by simp
qed

lemma runElectionTimer_unfold:
  "runElectionTimer se src cm ticks =
     ((timer_loop se (fst (electionTimeout src)) (currentTerm cm) ticks cm)
        \<lparr>trace := [Lock CM_mu, Unlock CM_mu, NewTicker (wrap64 (10 * Millisecond))]
                   @ trace (timer_loop se (fst (electionTimeout src)) (currentTerm cm) ticks cm)\<rparr>,
      snd (electionTimeout src))"
  by (simp add: runElectionTimer_def Let_def split: prod.splits)

subsection \<open>Sequences of operations\<close>

lemma apply_op_term_mono: "currentTerm cm \<le> currentTerm (apply_op op1 cm)"
proof (cases op1)
  case (TimerTick d t now now')
  then show ?thesis by (simp add: tick_def startElection_def)
next
  case (HigherTermObserved peerTerm now)
  then show ?thesis by (simp add: higherTermObserved_def reportHigherTerm_def)
next
  case (VoteRequested candidateTerm candidateId now)
  then show ?thesis
    by (simp add: voteRequested_def higherTermObserved_def reportHigherTerm_def Let_def)
next
  case (MajorityGranted electionTerm)
  then show ?thesis by (simp add: majorityGranted_def)
next
  case ShutdownRequested
  then show ?thesis by (simp add: shutdownRequested_def)
qed

lemma run_ops_term_mono: "currentTerm cm \<le> currentTerm (run_ops ops cm)"
proof (induction ops arbitrary: cm)
  case Nil
  show ?case by simp
next
  case (Cons op1 ops)
  have "currentTerm cm \<le> currentTerm (apply_op op1 cm)" by (rule apply_op_term_mono)
  also have "\<dots> \<le> currentTerm (run_ops ops (apply_op op1 cm))" by (rule Cons.IH)
  finally show ?case by simp
qed

lemma run_ops_append: "run_ops (ops1 @ ops2) cm = run_ops ops2 (run_ops ops1 cm)"
  by (induction ops1 arbitrary: cm) simp_all

lemma apply_op_Dead: "state cm = Dead \<Longrightarrow> state (apply_op op1 cm) = Dead"
proof (cases op1)
  case (TimerTick d t now now')
  assume "state cm = Dead"
  with TimerTick show ?thesis by (simp add: tick_def)
next
  case (HigherTermObserved peerTerm now)
  assume "state cm = Dead"
  with HigherTermObserved show ?thesis by (simp add: higherTermObserved_def)
next
  case (VoteRequested candidateTerm candidateId now)
  assume "state cm = Dead"
  with VoteRequested show ?thesis by (simp add: voteRequested_def higherTermObserved_def Let_def)
next
  case (MajorityGranted electionTerm)
  assume "state cm = Dead"
  with MajorityGranted show ?thesis by (simp add: majorityGranted_def)
next
  case ShutdownRequested
  assume "state cm = Dead"
  with ShutdownRequested show ?thesis by (simp add: shutdownRequested_def)
qed

lemma run_ops_Dead: "state cm = Dead \<Longrightarrow> state (run_ops ops cm) = Dead"
  by (induction ops arbitrary: cm) (simp_all add: apply_op_Dead)

subsection \<open>The claims\<close>

text \<open>
  Claim C1 (term monotonicity). Along every sequence of operations on a consensus module
  the current term never decreases: the term seen after a first part of the sequence is
  at most the term seen after any continuation of it. The operations are the ticks of
  the election timers (from the source) and the operations of the specification whose
  code is not in the source files.
\<close>

theorem currentTerm_never_decreases:
  "currentTerm (run_ops ops1 cm) \<le> currentTerm (run_ops (ops1 @ ops2) cm)"
  by (simp add: run_ops_append run_ops_term_mono)

text \<open>
  Claim C7 (Dead is absorbing). From a module whose state is Dead, every sequence of
  operations leaves the state Dead; and a tick of the election timer that finds the state
  Dead logs, returns and leaves the module as it was, whatever \<^verbatim>\<open>startElection\<close> is.
\<close>

theorem Dead_is_absorbing:
  assumes "state cm = Dead"
  shows "state (run_ops ops cm) = Dead
    \<and> tick se d t now cm =
        (BailState, cm,
         [Lock CM_mu] @ dlog cm ''In election timer state=%s, bailing out'' [StateV Dead] @ [Unlock CM_mu])
    \<and> status (timer_loop se d t ((\<lambda>c. c, now) # rest) cm) = Returned BailState
    \<and> final (timer_loop se d t ((\<lambda>c. c, now) # rest) cm) = cm"
proof -
  have tk: "tick se d t now cm =
        (BailState, cm,
         [Lock CM_mu] @ dlog cm ''In election timer state=%s, bailing out'' [StateV Dead] @ [Unlock CM_mu])"
    using assms by (simp add: tick_def)
  show ?thesis
    using assms by (simp add: run_ops_Dead tk timer_loop_Cons)
qed

theorem Dead_is_absorbing_witness:
  "state (node1\<lparr>state := Dead\<rparr>) = Dead
   \<and> state (run_ops [HigherTermObserved 5 10, TimerTick 150000000 0 400000000 400000001,
                     VoteRequested 7 2 20, MajorityGranted 0, ShutdownRequested]
              (node1\<lparr>state := Dead\<rparr>)) = Dead
   \<and> final (timer_loop (startElection 400000000) 150000000 0 [(\<lambda>c. c, 400000000)]
              (node1\<lparr>state := Dead\<rparr>)) = node1\<lparr>state := Dead\<rparr>"
proof -
  have h: "state (node1\<lparr>state := Dead\<rparr>) = Dead" by simp
  note dead = Dead_is_absorbing [OF h, where se = "startElection 400000000"
    and d = 150000000 and t = 0 and now = 400000000 and rest = "[]"
    and ops = "[HigherTermObserved 5 10, TimerTick 150000000 0 400000000 400000001,
                VoteRequested 7 2 20, MajorityGranted 0, ShutdownRequested]"]
  from h dead show ?thesis by blast
qed

text \<open>
  Claim C9. The timeouts that \<^verbatim>\<open>electionTimeout\<close> returns, over the draws that
  \<^verbatim>\<open>rand.Intn(150)\<close> can deliver, are exactly the whole numbers of milliseconds from 150ms
  to 299ms; 300ms is not among them.
\<close>

theorem electionTimeout_range_exact:
  "(fst \<circ> electionTimeout) ` {src. Intn_range 150 src} = (\<lambda>k. k * Millisecond) ` {150 .. 299}
   \<and> 300 * Millisecond \<notin> (fst \<circ> electionTimeout) ` {src. Intn_range 150 src}"
proof -
  have sub: "(fst \<circ> electionTimeout) ` {src. Intn_range 150 src} \<subseteq> (\<lambda>k. k * Millisecond) ` {150 .. 299}"
  proof
    fix d assume "d \<in> (fst \<circ> electionTimeout) ` {src. Intn_range 150 src}"
    then obtain src where s: "Intn_range 150 src" and d: "d = fst (electionTimeout src)" by auto
    from s have "150 + shd src \<in> {150 .. 299}" by (simp add: Intn_range_def)
    with d electionTimeout_value [OF s] show "d \<in> (\<lambda>k. k * Millisecond) ` {150 .. 299}" by blast
  qed
  have sup: "(\<lambda>k. k * Millisecond) ` {150 .. 299} \<subseteq> (fst \<circ> electionTimeout) ` {src. Intn_range 150 src}"
  proof
    fix d assume "d \<in> (\<lambda>k. k * Millisecond) ` {150 .. 299}"
    then obtain k where k: "150 \<le> k" "k \<le> 299" and d: "d = k * Millisecond" by auto
    let ?src = "(k - 150) ## sconst 0"
    from k have s: "Intn_range 150 ?src" by (simp add: Intn_range_def)
    have "fst (electionTimeout ?src) = d" using electionTimeout_value [OF s] d by simp
    with s show "d \<in> (fst \<circ> electionTimeout) ` {src. Intn_range 150 src}" by force
  qed
  have "300 * Millisecond \<notin> (\<lambda>k. k * Millisecond) ` {150 .. 299}"
    by (auto simp: Millisecond_def)
  with sub sup show ?thesis by blast
qed

text \<open>
  Claim C4. A timeout returned by \<^verbatim>\<open>electionTimeout\<close> lies between 150ms and 300ms. One
  call of \<^verbatim>\<open>runElectionTimer\<close> takes exactly one draw from the random source, whatever the
  number of ticks; and at every tick, however many came before, the tick is the one for
  the timeout of that single draw (and for the term read when the timer started).
\<close>

theorem electionTimeout_sampled_once:
  assumes "Intn_range 150 src"
  shows "150 * Millisecond \<le> fst (electionTimeout src)
    \<and> fst (electionTimeout src) \<le> 300 * Millisecond
    \<and> snd (runElectionTimer se src cm ticks) = stl src
    \<and> (status (fst (runElectionTimer se src cm ticks)) = Running \<longrightarrow>
         status (fst (runElectionTimer se src cm (ticks @ [(others, now)]))) =
           (let out = fst (tick se ((150 + shd src) * Millisecond) (currentTerm cm) now
                             (others (final (fst (runElectionTimer se src cm ticks)))))
            in if out = KeepWaiting then Running else Returned out))"
proof -
  have v: "fst (electionTimeout src) = (150 + shd src) * Millisecond"
    by (rule electionTimeout_value [OF assms])
  from assms have r: "0 \<le> shd src" "shd src < 150" by (simp_all add: Intn_range_def)
  from r have lo: "150 * Millisecond \<le> fst (electionTimeout src)"
    unfolding v Millisecond_def by simp
  from r have hi: "fst (electionTimeout src) \<le> 300 * Millisecond"
    unfolding v Millisecond_def by simp
  have one: "snd (runElectionTimer se src cm ticks) = stl src"
    by (simp add: runElectionTimer_unfold electionTimeout_src)
  have step: "status (fst (runElectionTimer se src cm ticks)) = Running \<longrightarrow>
         status (fst (runElectionTimer se src cm (ticks @ [(others, now)]))) =
           (let out = fst (tick se ((150 + shd src) * Millisecond) (currentTerm cm) now
                             (others (final (fst (runElectionTimer se src cm ticks)))))
            in if out = KeepWaiting then Running else Returned out)"
    by (simp add: runElectionTimer_unfold v timer_loop_append timer_loop_Cons Let_def
        del: timer_loop.simps(2))
  from lo hi one step show ?thesis by blast
qed

theorem electionTimeout_sampled_once_witness:
  "Intn_range 150 (7 ## sconst 0)
   \<and> fst (electionTimeout (7 ## sconst 0)) = 157000000
   \<and> 150 * Millisecond \<le> fst (electionTimeout (7 ## sconst 0))
   \<and> fst (electionTimeout (7 ## sconst 0)) \<le> 300 * Millisecond
   \<and> snd (runElectionTimer (startElection 160000000) (7 ## sconst 0) node1
             [(\<lambda>c. c, 10000000), (\<lambda>c. c, 160000000)]) = sconst 0
   \<and> status (fst (runElectionTimer (startElection 160000000) (7 ## sconst 0) node1 [(\<lambda>c. c, 10000000)])) = Running
   \<and> status (fst (runElectionTimer (startElection 160000000) (7 ## sconst 0) node1
             ([(\<lambda>c. c, 10000000)] @ [(\<lambda>c. c, 160000000)]))) = Returned Fired"
proof -
  have h: "Intn_range 150 (7 ## sconst 0)" by (simp add: Intn_range_def)
  have e: "fst (electionTimeout (7 ## sconst 0)) = 157000000"
    by (simp add: electionTimeout_def rand_Intn_def wrap64_def Millisecond_def)
  have run1: "status (fst (runElectionTimer (startElection 160000000) (7 ## sconst 0) node1 [(\<lambda>c. c, 10000000)])) = Running"
    by (simp add: runElectionTimer_unfold e timer_loop_Cons tick_def node1_def time_Since_def
        time_Sub_def maxDuration_def minDuration_def del: timer_loop.simps(2))
  have fin1: "final (fst (runElectionTimer (startElection 160000000) (7 ## sconst 0) node1 [(\<lambda>c. c, 10000000)])) = node1"
    by (simp add: runElectionTimer_unfold e timer_loop_Cons tick_def node1_def time_Since_def
        time_Sub_def maxDuration_def minDuration_def del: timer_loop.simps(2))
  note w = electionTimeout_sampled_once [OF h, where se = "startElection 160000000" and cm = node1
      and others = "\<lambda>c. c" and now = 160000000]
  have tk: "fst (tick (startElection 160000000) ((150 + shd (7 ## sconst 0)) * Millisecond) (currentTerm node1) 160000000 node1) = Fired"
    by (simp add: tick_def node1_def time_Since_def time_Sub_def maxDuration_def minDuration_def Millisecond_def)
  from w [of "[(\<lambda>c. c, 10000000), (\<lambda>c. c, 160000000)]"]
  have src: "snd (runElectionTimer (startElection 160000000) (7 ## sconst 0) node1
             [(\<lambda>c. c, 10000000), (\<lambda>c. c, 160000000)]) = sconst 0" by simp
  from w [of "[(\<lambda>c. c, 10000000)]"] run1
  have "status (fst (runElectionTimer (startElection 160000000) (7 ## sconst 0) node1
             ([(\<lambda>c. c, 10000000)] @ [(\<lambda>c. c, 160000000)]))) = Returned Fired"
    by (simp only: fin1 tk Let_def) simp
  with h e w [of "[]"] src run1 show ?thesis by simp
qed

lemma timer_loop_running_count:
  "status (timer_loop se d t ticks cm) = Running \<Longrightarrow>
   count_list (trace (timer_loop se d t ticks cm)) StartElection = 0"
proof (induction ticks arbitrary: cm)
  case Nil
  show ?case by simp
next
  case (Cons x ticks)
  obtain others now where x: "x = (others, now)" by (cases x)
  from Cons.prems have k: "fst (tick se d t now (others cm)) = KeepWaiting"
    unfolding x timer_loop_Cons by (simp split: if_splits)
  with Cons.prems have "status (timer_loop se d t ticks (others cm)) = Running"
    unfolding x timer_loop_Cons by simp
  then have "count_list (trace (timer_loop se d t ticks (others cm))) StartElection = 0"
    by (rule Cons.IH)
  with k show ?case unfolding x timer_loop_Cons by simp
qed

lemma tick_fires:
  assumes "state c = Follower \<or> state c = Candidate"
    and "currentTerm c = t"
    and "d \<le> time_Since now (electionResetEvent c)"
  shows "tick se d t now c = (Fired, se c, [Lock CM_mu, StartElection, Unlock CM_mu])"
  using assms by (auto simp add: tick_def)

lemma timer_loop_fires:
  assumes "status (timer_loop se d t ticks cm) = Running"
    and "state (others (final (timer_loop se d t ticks cm))) = Follower
         \<or> state (others (final (timer_loop se d t ticks cm))) = Candidate"
    and "currentTerm (others (final (timer_loop se d t ticks cm))) = t"
    and "d \<le> time_Since now (electionResetEvent (others (final (timer_loop se d t ticks cm))))"
  shows "timer_loop se d t (ticks @ (others, now) # rest) cm =
          \<lparr>status = Returned Fired,
           final = se (others (final (timer_loop se d t ticks cm))),
           trace = trace (timer_loop se d t ticks cm)
                     @ [TickerRecv, Lock CM_mu, StartElection, Unlock CM_mu, TickerStop]\<rparr>"
proof -
  let ?c = "others (final (timer_loop se d t ticks cm))"
  have tk: "tick se d t now ?c = (Fired, se ?c, [Lock CM_mu, StartElection, Unlock CM_mu])"
    by (rule tick_fires [OF assms(2) assms(3) assms(4)])
  have one: "timer_loop se d t ((others, now) # rest) (final (timer_loop se d t ticks cm)) =
          \<lparr>status = Returned Fired, final = se ?c,
           trace = [TickerRecv, Lock CM_mu, StartElection, Unlock CM_mu, TickerStop]\<rparr>"
    unfolding timer_loop_Cons tk by simp
  show ?thesis
    unfolding timer_loop_append [of se d t ticks "(others, now) # rest" cm] one
    using assms(1) by simp
qed

text \<open>
  Claim C2. A tick that finds the state Follower or Candidate, the term equal to the one
  the timer holds and the time since \<^verbatim>\<open>electionResetEvent\<close> at least the timeout calls
  \<^verbatim>\<open>startElection\<close> under the mutex. For a run of \<^verbatim>\<open>runElectionTimer\<close>: when the timer is
  still running after any number of ticks, and the next tick finds the state Follower or
  Candidate, the term equal to the one read when this run started and the time since
  \<^verbatim>\<open>electionResetEvent\<close> at least the timeout this run drew, the run calls
  \<^verbatim>\<open>startElection\<close> at that tick, stops its ticker and returns, whatever would have
  followed; the module is what \<^verbatim>\<open>startElection\<close> made of the one the tick found, and the
  call is the only one of the run. No run makes the call more than once.
\<close>

theorem timer_fires_once:
  "((state c = Follower \<or> state c = Candidate) \<and> currentTerm c = termStarted
      \<and> timeoutDuration \<le> time_Since now (electionResetEvent c) \<longrightarrow>
      tick se timeoutDuration termStarted now c =
        (Fired, se c, [Lock CM_mu, StartElection, Unlock CM_mu]))
   \<and> (status (fst (runElectionTimer se src cm ticks)) = Running
      \<and> (state (others (final (fst (runElectionTimer se src cm ticks)))) = Follower
          \<or> state (others (final (fst (runElectionTimer se src cm ticks)))) = Candidate)
      \<and> currentTerm (others (final (fst (runElectionTimer se src cm ticks)))) = currentTerm cm
      \<and> fst (electionTimeout src)
          \<le> time_Since now (electionResetEvent (others (final (fst (runElectionTimer se src cm ticks)))))
      \<longrightarrow>
      status (fst (runElectionTimer se src cm (ticks @ (others, now) # rest))) = Returned Fired
      \<and> final (fst (runElectionTimer se src cm (ticks @ (others, now) # rest))) =
          se (others (final (fst (runElectionTimer se src cm ticks))))
      \<and> trace (fst (runElectionTimer se src cm (ticks @ (others, now) # rest))) =
          trace (fst (runElectionTimer se src cm ticks))
            @ [TickerRecv, Lock CM_mu, StartElection, Unlock CM_mu, TickerStop]
      \<and> count_list (trace (fst (runElectionTimer se src cm (ticks @ (others, now) # rest))))
          StartElection = 1)
   \<and> count_list (trace (fst (runElectionTimer se src cm ticks))) StartElection \<le> 1"
proof -
  let ?d = "fst (electionTimeout src)"
  let ?t = "currentTerm cm"
  let ?pre = "[Lock CM_mu, Unlock CM_mu, NewTicker (wrap64 (10 * Millisecond))]"
  have st: "\<And>ts. status (fst (runElectionTimer se src cm ts)) = status (timer_loop se ?d ?t ts cm)"
    by (simp add: runElectionTimer_unfold)
  have fi: "\<And>ts. final (fst (runElectionTimer se src cm ts)) = final (timer_loop se ?d ?t ts cm)"
    by (simp add: runElectionTimer_unfold)
  have tr: "\<And>ts. trace (fst (runElectionTimer se src cm ts)) = ?pre @ trace (timer_loop se ?d ?t ts cm)"
    by (simp add: runElectionTimer_unfold)
  have a: "(state c = Follower \<or> state c = Candidate) \<and> currentTerm c = termStarted
      \<and> timeoutDuration \<le> time_Since now (electionResetEvent c) \<longrightarrow>
      tick se timeoutDuration termStarted now c =
        (Fired, se c, [Lock CM_mu, StartElection, Unlock CM_mu])"
    using tick_fires [of c termStarted timeoutDuration now se] by blast
  have b: "status (fst (runElectionTimer se src cm ticks)) = Running
      \<and> (state (others (final (fst (runElectionTimer se src cm ticks)))) = Follower
          \<or> state (others (final (fst (runElectionTimer se src cm ticks)))) = Candidate)
      \<and> currentTerm (others (final (fst (runElectionTimer se src cm ticks)))) = currentTerm cm
      \<and> fst (electionTimeout src)
          \<le> time_Since now (electionResetEvent (others (final (fst (runElectionTimer se src cm ticks)))))
      \<longrightarrow>
      status (fst (runElectionTimer se src cm (ticks @ (others, now) # rest))) = Returned Fired
      \<and> final (fst (runElectionTimer se src cm (ticks @ (others, now) # rest))) =
          se (others (final (fst (runElectionTimer se src cm ticks))))
      \<and> trace (fst (runElectionTimer se src cm (ticks @ (others, now) # rest))) =
          trace (fst (runElectionTimer se src cm ticks))
            @ [TickerRecv, Lock CM_mu, StartElection, Unlock CM_mu, TickerStop]
      \<and> count_list (trace (fst (runElectionTimer se src cm (ticks @ (others, now) # rest))))
          StartElection = 1"
  proof (intro impI, elim conjE)
    assume run: "status (fst (runElectionTimer se src cm ticks)) = Running"
      and role: "state (others (final (fst (runElectionTimer se src cm ticks)))) = Follower
          \<or> state (others (final (fst (runElectionTimer se src cm ticks)))) = Candidate"
      and same: "currentTerm (others (final (fst (runElectionTimer se src cm ticks)))) = currentTerm cm"
      and late: "fst (electionTimeout src)
          \<le> time_Since now (electionResetEvent (others (final (fst (runElectionTimer se src cm ticks)))))"
    note lp = timer_loop_fires [of se ?d ?t ticks cm others now rest,
        OF run [unfolded st] role [unfolded fi] same [unfolded fi] late [unfolded fi]]
    have zero: "count_list (trace (timer_loop se ?d ?t ticks cm)) StartElection = 0"
      by (rule timer_loop_running_count [OF run [unfolded st]])
    show "status (fst (runElectionTimer se src cm (ticks @ (others, now) # rest))) = Returned Fired
      \<and> final (fst (runElectionTimer se src cm (ticks @ (others, now) # rest))) =
          se (others (final (fst (runElectionTimer se src cm ticks))))
      \<and> trace (fst (runElectionTimer se src cm (ticks @ (others, now) # rest))) =
          trace (fst (runElectionTimer se src cm ticks))
            @ [TickerRecv, Lock CM_mu, StartElection, Unlock CM_mu, TickerStop]
      \<and> count_list (trace (fst (runElectionTimer se src cm (ticks @ (others, now) # rest))))
          StartElection = 1"
      unfolding st fi tr lp using zero by simp
  qed
  have c: "count_list (trace (fst (runElectionTimer se src cm ticks))) StartElection \<le> 1"
    unfolding tr using timer_loop_count [of se ?d ?t ticks cm] by simp
  from a b c show ?thesis by blast
qed

theorem timer_fires_once_witness:
  "status (fst (runElectionTimer (startElection 160000001) (7 ## sconst 0) node1
             [(\<lambda>c. c, 10000000)])) = Running
   \<and> final (fst (runElectionTimer (startElection 160000001) (7 ## sconst 0) node1
             [(\<lambda>c. c, 10000000)])) = node1
   \<and> (state node1 = Follower \<or> state node1 = Candidate)
   \<and> currentTerm node1 = 0
   \<and> fst (electionTimeout (7 ## sconst 0)) = 157000000
   \<and> fst (electionTimeout (7 ## sconst 0)) \<le> time_Since 160000000 (electionResetEvent node1)
   \<and> status (fst (runElectionTimer (startElection 160000001) (7 ## sconst 0) node1
             ([(\<lambda>c. c, 10000000)] @ (\<lambda>c. c, 160000000) # [(\<lambda>c. c, 170000000)])))
       = Returned Fired
   \<and> final (fst (runElectionTimer (startElection 160000001) (7 ## sconst 0) node1
             ([(\<lambda>c. c, 10000000)] @ (\<lambda>c. c, 160000000) # [(\<lambda>c. c, 170000000)])))
       = startElection 160000001 node1
   \<and> trace (fst (runElectionTimer (startElection 160000001) (7 ## sconst 0) node1
             ([(\<lambda>c. c, 10000000)] @ (\<lambda>c. c, 160000000) # [(\<lambda>c. c, 170000000)])))
       = [Lock CM_mu, Unlock CM_mu, NewTicker 10000000, TickerRecv, Lock CM_mu, Unlock CM_mu,
          TickerRecv, Lock CM_mu, StartElection, Unlock CM_mu, TickerStop]
   \<and> currentTerm (startElection 160000001 node1) = 1
   \<and> state (startElection 160000001 node1) = Candidate
   \<and> tick (startElection 160000001) 157000000 0 160000000 node1
       = (Fired, startElection 160000001 node1, [Lock CM_mu, StartElection, Unlock CM_mu])"
proof -
  let ?run = "\<lambda>ts. fst (runElectionTimer (startElection 160000001) (7 ## sconst 0) node1 ts)"
  have e: "fst (electionTimeout (7 ## sconst 0)) = 157000000"
    by (simp add: electionTimeout_def rand_Intn_def wrap64_def Millisecond_def)
  have r1: "status (?run [(\<lambda>c. c, 10000000)]) = Running"
    by (simp add: runElectionTimer_unfold e timer_loop_Cons tick_def node1_def time_Since_def
        time_Sub_def maxDuration_def minDuration_def del: timer_loop.simps(2))
  have f1: "final (?run [(\<lambda>c. c, 10000000)]) = node1"
    by (simp add: runElectionTimer_unfold e timer_loop_Cons tick_def node1_def time_Since_def
        time_Sub_def maxDuration_def minDuration_def del: timer_loop.simps(2))
  have t1: "trace (?run [(\<lambda>c. c, 10000000)]) =
      [Lock CM_mu, Unlock CM_mu, NewTicker 10000000, TickerRecv, Lock CM_mu, Unlock CM_mu]"
    by (simp add: runElectionTimer_unfold e timer_loop_Cons tick_def node1_def time_Since_def
        time_Sub_def maxDuration_def minDuration_def wrap64_def Millisecond_def
        del: timer_loop.simps(2))
  have h1: "state node1 = Follower \<or> state node1 = Candidate" by (simp add: node1_def)
  have h2: "currentTerm node1 = 0" by (simp add: node1_def)
  have h3: "fst (electionTimeout (7 ## sconst 0)) \<le> time_Since 160000000 (electionResetEvent node1)"
    unfolding e by (simp add: node1_def time_Since_def time_Sub_def maxDuration_def minDuration_def)
  have h3': "(157000000 :: int) \<le> time_Since 160000000 (electionResetEvent node1)"
    using h3 unfolding e .
  note w = timer_fires_once [where se = "startElection 160000001" and src = "7 ## sconst 0"
      and cm = node1 and ticks = "[(\<lambda>c. c, 10000000)]" and others = "\<lambda>c. c"
      and now = 160000000 and rest = "[(\<lambda>c. c, 170000000)]" and c = node1
      and termStarted = 0 and timeoutDuration = 157000000]
  from w [THEN conjunct1] h1 h2 h3'
  have tk: "tick (startElection 160000001) 157000000 0 160000000 node1
       = (Fired, startElection 160000001 node1, [Lock CM_mu, StartElection, Unlock CM_mu])"
    by blast
  have pre: "status (?run [(\<lambda>c. c, 10000000)]) = Running
      \<and> (state ((\<lambda>c. c) (final (?run [(\<lambda>c. c, 10000000)]))) = Follower
          \<or> state ((\<lambda>c. c) (final (?run [(\<lambda>c. c, 10000000)]))) = Candidate)
      \<and> currentTerm ((\<lambda>c. c) (final (?run [(\<lambda>c. c, 10000000)]))) = currentTerm node1
      \<and> fst (electionTimeout (7 ## sconst 0))
          \<le> time_Since 160000000 (electionResetEvent ((\<lambda>c. c) (final (?run [(\<lambda>c. c, 10000000)]))))"
    using r1 h1 h3 by (simp add: f1)
  from w [THEN conjunct2, THEN conjunct1] pre
  have fired: "status (?run ([(\<lambda>c. c, 10000000)] @ (\<lambda>c. c, 160000000) # [(\<lambda>c. c, 170000000)])) = Returned Fired
      \<and> final (?run ([(\<lambda>c. c, 10000000)] @ (\<lambda>c. c, 160000000) # [(\<lambda>c. c, 170000000)])) =
          startElection 160000001 node1
      \<and> trace (?run ([(\<lambda>c. c, 10000000)] @ (\<lambda>c. c, 160000000) # [(\<lambda>c. c, 170000000)])) =
          [Lock CM_mu, Unlock CM_mu, NewTicker 10000000, TickerRecv, Lock CM_mu, Unlock CM_mu,
           TickerRecv, Lock CM_mu, StartElection, Unlock CM_mu, TickerStop]"
    by (simp add: f1 t1)
  have s: "currentTerm (startElection 160000001 node1) = 1
      \<and> state (startElection 160000001 node1) = Candidate"
    by (simp add: startElection_def node1_def)
  from r1 f1 h1 h2 e h3 fired s tk show ?thesis by blast
qed



lemma timer_loop_undisturbed:
  "final (timer_loop se d t (map (Pair (\<lambda>c. c)) nows) cm) =
     (if status (timer_loop se d t (map (Pair (\<lambda>c. c)) nows) cm) = Returned Fired then se cm else cm)"
proof (induction nows)
  case Nil
  show ?case by simp
next
  case (Cons now nows)
  show ?case
    unfolding list.map timer_loop_Cons
    using Cons.IH by (simp add: tick_def)
qed

text \<open>
  Claim C8. The timer writes no field of the module. A tick that does not call
  \<^verbatim>\<open>startElection\<close> returns the module as it found it (state, term, vote and reset event
  unchanged); a tick that calls it returns what \<^verbatim>\<open>startElection\<close> made of the module and
  does nothing else under the mutex. A whole run of \<^verbatim>\<open>runElectionTimer\<close> that no other task
  disturbs ends with the module it started with, or with \<^verbatim>\<open>startElection\<close> applied to it.
\<close>

theorem timer_writes_nothing:
  "(fst (tick se d t now cm) \<noteq> Fired \<longrightarrow>
      fst (snd (tick se d t now cm)) = cm
      \<and> state (fst (snd (tick se d t now cm))) = state cm
      \<and> currentTerm (fst (snd (tick se d t now cm))) = currentTerm cm
      \<and> votedFor (fst (snd (tick se d t now cm))) = votedFor cm
      \<and> electionResetEvent (fst (snd (tick se d t now cm))) = electionResetEvent cm
      \<and> StartElection \<notin> set (snd (snd (tick se d t now cm))))
   \<and> (fst (tick se d t now cm) = Fired \<longrightarrow>
      fst (snd (tick se d t now cm)) = se cm
      \<and> snd (snd (tick se d t now cm)) = [Lock CM_mu, StartElection, Unlock CM_mu])
   \<and> final (fst (runElectionTimer se src cm (map (Pair (\<lambda>c. c)) nows))) =
       (if status (fst (runElectionTimer se src cm (map (Pair (\<lambda>c. c)) nows))) = Returned Fired
        then se cm else cm)"
proof -
  have a: "fst (tick se d t now cm) \<noteq> Fired \<longrightarrow>
      fst (snd (tick se d t now cm)) = cm
      \<and> state (fst (snd (tick se d t now cm))) = state cm
      \<and> currentTerm (fst (snd (tick se d t now cm))) = currentTerm cm
      \<and> votedFor (fst (snd (tick se d t now cm))) = votedFor cm
      \<and> electionResetEvent (fst (snd (tick se d t now cm))) = electionResetEvent cm
      \<and> StartElection \<notin> set (snd (snd (tick se d t now cm)))"
    by (simp add: tick_def dlog_events)
  have b: "fst (tick se d t now cm) = Fired \<longrightarrow>
      fst (snd (tick se d t now cm)) = se cm
      \<and> snd (snd (tick se d t now cm)) = [Lock CM_mu, StartElection, Unlock CM_mu]"
    by (simp add: tick_def)
  have c: "final (fst (runElectionTimer se src cm (map (Pair (\<lambda>c. c)) nows))) =
       (if status (fst (runElectionTimer se src cm (map (Pair (\<lambda>c. c)) nows))) = Returned Fired
        then se cm else cm)"
    using timer_loop_undisturbed [of se "fst (electionTimeout src)" "currentTerm cm" nows cm]
    by (simp add: runElectionTimer_unfold)
  from a b c show ?thesis by blast
qed

theorem timer_writes_nothing_witness:
  "fst (tick (startElection 100000000) 157000000 0 100000000 node1) \<noteq> Fired
   \<and> fst (snd (tick (startElection 100000000) 157000000 0 100000000 node1)) = node1
   \<and> fst (tick (startElection 160000000) 157000000 0 160000000 node1) = Fired
   \<and> fst (snd (tick (startElection 160000000) 157000000 0 160000000 node1)) = startElection 160000000 node1"
proof -
  have h1: "fst (tick (startElection 100000000) 157000000 0 100000000 node1) \<noteq> Fired"
    by (simp add: tick_def node1_def time_Since_def time_Sub_def maxDuration_def minDuration_def)
  have h2: "fst (tick (startElection 160000000) 157000000 0 160000000 node1) = Fired"
    by (simp add: tick_def node1_def time_Since_def time_Sub_def maxDuration_def minDuration_def)
  note w1 = timer_writes_nothing [where se = "startElection 100000000" and d = 157000000
      and t = 0 and now = 100000000 and cm = node1]
  note w2 = timer_writes_nothing [where se = "startElection 160000000" and d = 157000000
      and t = 0 and now = 160000000 and cm = node1]
  from h1 h2 w1 w2 show ?thesis by blast
qed

lemma map_index_None: "map_index m k = None \<longleftrightarrow> (m k = None \<or> m k = Some None)"
  by (simp add: map_index_def split: option.splits)

lemma map_index_Some: "map_index m k = Some c \<longleftrightarrow> m k = Some (Some c)"
  by (simp add: map_index_def split: option.splits)

lemma show_int_7: "show_int 7 = ''7''"
  by (simp add: show_int_def show_nat.simps digit_char_def)

text \<open>
  Claim C5. When the table \<^verbatim>\<open>peerClients\<close> has no entry for the peer id, or a nil entry,
  \<^verbatim>\<open>Server.Call\<close> returns the error "call client <id> after it's closed" with the reply
  object untouched, and its events hold no call to a peer. When the table has a handle
  for the id, \<^verbatim>\<open>Server.Call\<close> makes the call on that handle and returns what the call
  returns.
\<close>

theorem Call_peer_unavailable_or_forwarded:
  "(peerClients s ident = None \<or> peerClients s ident = Some None \<longrightarrow>
      Call rpc s ident serviceMethod args reply =
        ([Lock Server_mu, MapRead ident, Unlock Server_mu],
         Inr (Some (ErrorString (''call client '' @ show_int ident @ '' after it'' @ [CHR 0x27] @ ''s closed'')),
              reply))
      \<and> (\<forall>p m. RpcCall p m \<notin> set (fst (Call rpc s ident serviceMethod args reply))))
   \<and> (peerClients s ident = Some (Some c) \<longrightarrow>
      Call rpc s ident serviceMethod args reply =
        ([Lock Server_mu, MapRead ident, Unlock Server_mu, RpcCall ident serviceMethod],
         Inr (rpc c serviceMethod args reply)))"
proof -
  have a: "peerClients s ident = None \<or> peerClients s ident = Some None \<Longrightarrow>
      Call rpc s ident serviceMethod args reply =
        ([Lock Server_mu, MapRead ident, Unlock Server_mu],
         Inr (Some (ErrorString (''call client '' @ show_int ident @ '' after it'' @ [CHR 0x27] @ ''s closed'')),
              reply))"
    using map_index_None [of "peerClients s" ident] by (simp add: Call_def)
  have b: "peerClients s ident = Some (Some c) \<Longrightarrow>
      Call rpc s ident serviceMethod args reply =
        ([Lock Server_mu, MapRead ident, Unlock Server_mu, RpcCall ident serviceMethod],
         Inr (rpc c serviceMethod args reply))"
    using map_index_Some [of "peerClients s" ident c] by (simp add: Call_def Client_Call_def)
  from a b show ?thesis by auto
qed

theorem Call_peer_unavailable_or_forwarded_witness:
  "peerClients \<lparr>serverId = 1, server_peerIds = [2, 3], peerClients = [2 \<mapsto> Some (20 :: nat), 3 \<mapsto> None]\<rparr> 7 = None
   \<and> Call (\<lambda>c m a r. (None, c + a)) \<lparr>serverId = 1, server_peerIds = [2, 3], peerClients = [2 \<mapsto> Some (20 :: nat), 3 \<mapsto> None]\<rparr>
        7 ''ConsensusModule.RequestVote'' (1 :: nat) (0 :: nat)
      = ([Lock Server_mu, MapRead 7, Unlock Server_mu],
         Inr (Some (ErrorString (''call client 7 after it'' @ [CHR 0x27] @ ''s closed'')), 0))
   \<and> peerClients \<lparr>serverId = 1, server_peerIds = [2, 3], peerClients = [2 \<mapsto> Some (20 :: nat), 3 \<mapsto> None]\<rparr> 3 = Some None
   \<and> fst (Call (\<lambda>c m a r. (None, c + a)) \<lparr>serverId = 1, server_peerIds = [2, 3], peerClients = [2 \<mapsto> Some (20 :: nat), 3 \<mapsto> None]\<rparr>
        3 ''ConsensusModule.RequestVote'' (1 :: nat) (0 :: nat))
      = [Lock Server_mu, MapRead 3, Unlock Server_mu]
   \<and> peerClients \<lparr>serverId = 1, server_peerIds = [2, 3], peerClients = [2 \<mapsto> Some (20 :: nat), 3 \<mapsto> None]\<rparr> 2 = Some (Some 20)
   \<and> Call (\<lambda>c m a r. (None, c + a)) \<lparr>serverId = 1, server_peerIds = [2, 3], peerClients = [2 \<mapsto> Some (20 :: nat), 3 \<mapsto> None]\<rparr>
        2 ''ConsensusModule.RequestVote'' (1 :: nat) (0 :: nat)
      = ([Lock Server_mu, MapRead 2, Unlock Server_mu, RpcCall 2 ''ConsensusModule.RequestVote''],
         Inr (None, 21))"
proof -
  let ?s = "\<lparr>serverId = 1, server_peerIds = [2, 3], peerClients = [2 \<mapsto> Some (20 :: nat), 3 \<mapsto> None]\<rparr>"
  have h7: "peerClients ?s 7 = None" by simp
  have h3: "peerClients ?s 3 = Some None" by simp
  have h2: "peerClients ?s 2 = Some (Some 20)" by simp
  note w7 = Call_peer_unavailable_or_forwarded [where s = ?s and ident = 7
      and rpc = "\<lambda>c m a r. (None, c + a)" and serviceMethod = "''ConsensusModule.RequestVote''"
      and args = "1 :: nat" and reply = "0 :: nat"]
  note w3 = Call_peer_unavailable_or_forwarded [where s = ?s and ident = 3
      and rpc = "\<lambda>c m a r. (None, c + a)" and serviceMethod = "''ConsensusModule.RequestVote''"
      and args = "1 :: nat" and reply = "0 :: nat"]
  note w2 = Call_peer_unavailable_or_forwarded [where s = ?s and ident = 2 and c = 20
      and rpc = "\<lambda>c m a r. (None, c + a)" and serviceMethod = "''ConsensusModule.RequestVote''"
      and args = "1 :: nat" and reply = "0 :: nat"]
  from h7 w7 have r7: "Call (\<lambda>c m a r. (None, c + a)) ?s 7 ''ConsensusModule.RequestVote'' (1 :: nat) (0 :: nat)
      = ([Lock Server_mu, MapRead 7, Unlock Server_mu],
         Inr (Some (ErrorString (''call client 7 after it'' @ [CHR 0x27] @ ''s closed'')), 0))"
    by (simp add: show_int_7)
  from h3 w3 have r3: "fst (Call (\<lambda>c m a r. (None, c + a)) ?s 3 ''ConsensusModule.RequestVote'' (1 :: nat) (0 :: nat))
      = [Lock Server_mu, MapRead 3, Unlock Server_mu]"
    by simp
  from h2 w2 have r2: "Call (\<lambda>c m a r. (None, c + a)) ?s 2 ''ConsensusModule.RequestVote'' (1 :: nat) (0 :: nat)
      = ([Lock Server_mu, MapRead 2, Unlock Server_mu, RpcCall 2 ''ConsensusModule.RequestVote''],
         Inr (None, 21))"
    by simp
  from h7 h3 h2 r7 r3 r2 show ?thesis by blast
qed

text \<open>
  Claim C10. \<^verbatim>\<open>Server.Call\<close> never panics, whatever the peer id: the nil check comes
  before the method call on the pointer. For an id that is not a key of the table the
  lookup gives nil, and the call returns what it returns for the same id with a nil entry
  (a peer torn down): the error.
\<close>

theorem Call_total_over_peer_ids:
  "(\<forall>p. snd (Call rpc s ident serviceMethod args reply) \<noteq> Inl p)
   \<and> (ident \<notin> dom (peerClients s) \<longrightarrow>
        map_index (peerClients s) ident = None
        \<and> Call rpc s ident serviceMethod args reply =
            Call rpc (s\<lparr>peerClients := (peerClients s)(ident \<mapsto> None)\<rparr>) ident serviceMethod args reply
        \<and> snd (Call rpc s ident serviceMethod args reply) =
            Inr (Some (ErrorString (''call client '' @ show_int ident @ '' after it'' @ [CHR 0x27] @ ''s closed'')),
                 reply))"
proof -
  have total: "\<forall>p. snd (Call rpc s ident serviceMethod args reply) \<noteq> Inl p"
  proof (cases "map_index (peerClients s) ident")
    case None
    then show ?thesis by (simp add: Call_def)
  next
    case (Some c)
    then show ?thesis by (simp add: Call_def Client_Call_def)
  qed
  have absent: "ident \<notin> dom (peerClients s) \<longrightarrow>
        map_index (peerClients s) ident = None
        \<and> Call rpc s ident serviceMethod args reply =
            Call rpc (s\<lparr>peerClients := (peerClients s)(ident \<mapsto> None)\<rparr>) ident serviceMethod args reply
        \<and> snd (Call rpc s ident serviceMethod args reply) =
            Inr (Some (ErrorString (''call client '' @ show_int ident @ '' after it'' @ [CHR 0x27] @ ''s closed'')),
                 reply)"
    by (auto simp add: Call_def map_index_def)
  from total absent show ?thesis by blast
qed

theorem Call_total_over_peer_ids_witness:
  "(7 :: int) \<notin> dom (peerClients \<lparr>serverId = 1, server_peerIds = [2, 3], peerClients = [2 \<mapsto> Some (20 :: nat), 3 \<mapsto> None]\<rparr>)
   \<and> snd (Call (\<lambda>c m a r. (None, c + a)) \<lparr>serverId = 1, server_peerIds = [2, 3], peerClients = [2 \<mapsto> Some (20 :: nat), 3 \<mapsto> None]\<rparr>
        7 ''ConsensusModule.RequestVote'' (1 :: nat) (0 :: nat))
      = Inr (Some (ErrorString (''call client 7 after it'' @ [CHR 0x27] @ ''s closed'')), 0)
   \<and> Call (\<lambda>c m a r. (None, c + a)) \<lparr>serverId = 1, server_peerIds = [2, 3], peerClients = [2 \<mapsto> Some (20 :: nat), 3 \<mapsto> None]\<rparr>
        7 ''ConsensusModule.RequestVote'' (1 :: nat) (0 :: nat)
      = Call (\<lambda>c m a r. (None, c + a)) \<lparr>serverId = 1, server_peerIds = [2, 3], peerClients = [2 \<mapsto> Some (20 :: nat), 3 \<mapsto> None, 7 \<mapsto> None]\<rparr>
        7 ''ConsensusModule.RequestVote'' (1 :: nat) (0 :: nat)"
proof -
  let ?s = "\<lparr>serverId = 1, server_peerIds = [2, 3], peerClients = [2 \<mapsto> Some (20 :: nat), 3 \<mapsto> None]\<rparr>"
  have h: "(7 :: int) \<notin> dom (peerClients ?s)" by simp
  note w = Call_total_over_peer_ids [where s = ?s and ident = 7
      and rpc = "\<lambda>c m a r. (None, c + a)" and serviceMethod = "''ConsensusModule.RequestVote''"
      and args = "1 :: nat" and reply = "0 :: nat"]
  have upd: "?s\<lparr>peerClients := (peerClients ?s)(7 \<mapsto> None)\<rparr> =
      \<lparr>serverId = 1, server_peerIds = [2, 3], peerClients = [2 \<mapsto> Some (20 :: nat), 3 \<mapsto> None, 7 \<mapsto> None]\<rparr>"
    by simp
  from h w have r0: "snd (Call (\<lambda>c m a r. (None, c + a)) ?s 7 ''ConsensusModule.RequestVote'' (1 :: nat) (0 :: nat))
      = Inr (Some (ErrorString (''call client '' @ show_int 7 @ '' after it'' @ [CHR 0x27] @ ''s closed'')), 0)"
    by blast
  then have r1: "snd (Call (\<lambda>c m a r. (None, c + a)) ?s 7 ''ConsensusModule.RequestVote'' (1 :: nat) (0 :: nat))
      = Inr (Some (ErrorString (''call client 7 after it'' @ [CHR 0x27] @ ''s closed'')), 0)"
    by (simp add: show_int_7)
  from h w have r2: "Call (\<lambda>c m a r. (None, c + a)) ?s 7 ''ConsensusModule.RequestVote'' (1 :: nat) (0 :: nat)
      = Call (\<lambda>c m a r. (None, c + a)) (?s\<lparr>peerClients := (peerClients ?s)(7 \<mapsto> None)\<rparr>)
          7 ''ConsensusModule.RequestVote'' (1 :: nat) (0 :: nat)"
    by blast
  from h r1 r2 [unfolded upd] show ?thesis by blast
qed

subsection \<open>The lock discipline of the tasks\<close>

lemma lock_free_no_rpc:
  "\<forall>p m. RpcCall p m \<notin> set es \<Longrightarrow> lock_free_calls held es"
  by (induction held es rule: lock_free_calls.induct) auto

lemma inline_no_rpc:
  assumes "\<forall>p m. RpcCall p m \<notin> set body" and "\<forall>p m. RpcCall p m \<notin> set es"
  shows "\<forall>p m. RpcCall p m \<notin> set (inline_startElection body es)"
  using assms by (auto simp add: inline_startElection_def split: if_splits)

lemma runElectionTimer_no_rpc:
  "\<forall>p m. RpcCall p m \<notin> set (trace (fst (runElectionTimer se src cm ticks)))"
  by (simp add: runElectionTimer_unfold timer_loop_no_rpc)

lemma startElection_events_no_rpc: "\<forall>p m. RpcCall p m \<notin> set (startElection_events cm)"
  by (auto simp add: startElection_events_def)

lemma Call_events:
  "fst (Call rpc s ident serviceMethod args reply) =
     [Lock Server_mu, MapRead ident, Unlock Server_mu]
       @ (if map_index (peerClients s) ident = None then [] else [RpcCall ident serviceMethod])"
  by (simp add: Call_def Let_def)

lemma voteRequestTask_events:
  "voteRequestTask rpc s ident serviceMethod args reply =
     fst (Call rpc s ident serviceMethod args reply)
     \<or> voteRequestTask rpc s ident serviceMethod args reply =
     fst (Call rpc s ident serviceMethod args reply) @ [Lock CM_mu, ApplyReply, Unlock CM_mu]"
  by (simp add: voteRequestTask_def split: prod.splits sum.splits option.splits)

text \<open>
  The discipline is not empty: a \<^verbatim>\<open>startElection\<close> that called a peer before returning
  would break it, since the timer holds \<^verbatim>\<open>cm.mu\<close> around the call.
\<close>

lemma lock_held_call_rejected:
  "\<not> lock_free_calls []
        (inline_startElection [RpcCall 2 ''ConsensusModule.RequestVote'']
           [Lock CM_mu, StartElection, Unlock CM_mu])"
  by (simp add: inline_startElection_def)

text \<open>
  Claim C6. No task calls a peer while it holds a mutex. \<^verbatim>\<open>Server.Call\<close> takes the
  server's mutex, reads the table, releases the mutex and only then, with a handle, makes
  the call; it holds nothing when it returns. The election timer makes no call to a peer
  at all, and holds \<^verbatim>\<open>cm.mu\<close> only around its reads and around \<^verbatim>\<open>startElection\<close>: its
  events, with those of \<^verbatim>\<open>startElection\<close> put in, keep the discipline for every body of
  \<^verbatim>\<open>startElection\<close> without a call to a peer, and so for the body the specification
  describes. The vote request task of the specification calls through \<^verbatim>\<open>Server.Call\<close>
  first and takes \<^verbatim>\<open>cm.mu\<close> afterwards.
\<close>

theorem no_call_under_lock:
  "fst (Call rpc s ident serviceMethod args reply) =
     [Lock Server_mu, MapRead ident, Unlock Server_mu]
       @ (if map_index (peerClients s) ident = None then [] else [RpcCall ident serviceMethod])
   \<and> lock_free_calls [] (fst (Call rpc s ident serviceMethod args reply))
   \<and> held_after [] (fst (Call rpc s ident serviceMethod args reply)) = []
   \<and> (\<forall>p m. RpcCall p m \<notin> set (trace (fst (runElectionTimer se src cm ticks))))
   \<and> ((\<forall>p m. RpcCall p m \<notin> set body) \<longrightarrow>
        lock_free_calls [] (inline_startElection body (trace (fst (runElectionTimer se src cm ticks)))))
   \<and> lock_free_calls []
        (inline_startElection (startElection_events cm') (trace (fst (runElectionTimer se src cm ticks))))
   \<and> lock_free_calls [] (voteRequestTask rpc s ident serviceMethod args reply)"
proof -
  have ev: "fst (Call rpc s ident serviceMethod args reply) =
     [Lock Server_mu, MapRead ident, Unlock Server_mu]
       @ (if map_index (peerClients s) ident = None then [] else [RpcCall ident serviceMethod])"
    by (rule Call_events)
  have c1: "lock_free_calls [] (fst (Call rpc s ident serviceMethod args reply))"
    unfolding ev by simp
  have c2: "held_after [] (fst (Call rpc s ident serviceMethod args reply)) = []"
    unfolding ev by simp
  have t0: "\<forall>p m. RpcCall p m \<notin> set (trace (fst (runElectionTimer se src cm ticks)))"
    by (rule runElectionTimer_no_rpc)
  have t1: "(\<forall>p m. RpcCall p m \<notin> set body) \<longrightarrow>
        lock_free_calls [] (inline_startElection body (trace (fst (runElectionTimer se src cm ticks))))"
    using inline_no_rpc [OF _ t0] lock_free_no_rpc by blast
  have t2: "lock_free_calls []
        (inline_startElection (startElection_events cm') (trace (fst (runElectionTimer se src cm ticks))))"
    using inline_no_rpc [OF startElection_events_no_rpc t0] lock_free_no_rpc by blast
  have v: "lock_free_calls [] (voteRequestTask rpc s ident serviceMethod args reply)"
    using voteRequestTask_events [of rpc s ident serviceMethod args reply]
  proof
    assume "voteRequestTask rpc s ident serviceMethod args reply =
      fst (Call rpc s ident serviceMethod args reply)"
    with c1 show ?thesis by simp
  next
    assume "voteRequestTask rpc s ident serviceMethod args reply =
      fst (Call rpc s ident serviceMethod args reply) @ [Lock CM_mu, ApplyReply, Unlock CM_mu]"
    then show ?thesis unfolding ev by simp
  qed
  from ev c1 c2 t0 t1 t2 v show ?thesis by blast
qed

theorem no_call_under_lock_witness:
  "(\<forall>p m. RpcCall p m \<notin> set [Spawn ElectionTimer, Spawn (VoteRequest 2), Spawn (VoteRequest 3)])
   \<and> trace (fst (runElectionTimer (startElection 160000000) (7 ## sconst 0) node1 [(\<lambda>c. c, 160000000)]))
       = [Lock CM_mu, Unlock CM_mu, NewTicker 10000000, TickerRecv, Lock CM_mu, StartElection,
          Unlock CM_mu, TickerStop]
   \<and> inline_startElection [Spawn ElectionTimer, Spawn (VoteRequest 2), Spawn (VoteRequest 3)]
        (trace (fst (runElectionTimer (startElection 160000000) (7 ## sconst 0) node1 [(\<lambda>c. c, 160000000)])))
       = [Lock CM_mu, Unlock CM_mu, NewTicker 10000000, TickerRecv, Lock CM_mu, StartElection,
          Spawn ElectionTimer, Spawn (VoteRequest 2), Spawn (VoteRequest 3), Unlock CM_mu, TickerStop]
   \<and> lock_free_calls []
        (inline_startElection [Spawn ElectionTimer, Spawn (VoteRequest 2), Spawn (VoteRequest 3)]
           (trace (fst (runElectionTimer (startElection 160000000) (7 ## sconst 0) node1 [(\<lambda>c. c, 160000000)]))))"
proof -
  have h: "\<forall>p m. RpcCall p m \<notin> set [Spawn ElectionTimer, Spawn (VoteRequest 2), Spawn (VoteRequest 3)]"
    by simp
  have e: "fst (electionTimeout (7 ## sconst 0)) = 157000000"
    by (simp add: electionTimeout_def rand_Intn_def wrap64_def Millisecond_def)
  have tr: "trace (fst (runElectionTimer (startElection 160000000) (7 ## sconst 0) node1 [(\<lambda>c. c, 160000000)]))
       = [Lock CM_mu, Unlock CM_mu, NewTicker 10000000, TickerRecv, Lock CM_mu, StartElection,
          Unlock CM_mu, TickerStop]"
    by (simp add: runElectionTimer_unfold e timer_loop_Cons tick_def node1_def time_Since_def
        time_Sub_def maxDuration_def minDuration_def wrap64_def Millisecond_def
        del: timer_loop.simps(2))
  have il: "inline_startElection [Spawn ElectionTimer, Spawn (VoteRequest 2), Spawn (VoteRequest 3)]
        (trace (fst (runElectionTimer (startElection 160000000) (7 ## sconst 0) node1 [(\<lambda>c. c, 160000000)])))
       = [Lock CM_mu, Unlock CM_mu, NewTicker 10000000, TickerRecv, Lock CM_mu, StartElection,
          Spawn ElectionTimer, Spawn (VoteRequest 2), Spawn (VoteRequest 3), Unlock CM_mu, TickerStop]"
    unfolding tr by (simp add: inline_startElection_def)
  note w = no_call_under_lock [where body = "[Spawn ElectionTimer, Spawn (VoteRequest 2), Spawn (VoteRequest 3)]"
      and se = "startElection 160000000" and src = "7 ## sconst 0" and cm = node1
      and ticks = "[(\<lambda>c. c, 160000000)]"]
  from h w [THEN conjunct2, THEN conjunct2, THEN conjunct2, THEN conjunct2, THEN conjunct1]
  have "lock_free_calls []
        (inline_startElection [Spawn ElectionTimer, Spawn (VoteRequest 2), Spawn (VoteRequest 3)]
           (trace (fst (runElectionTimer (startElection 160000000) (7 ## sconst 0) node1 [(\<lambda>c. c, 160000000)]))))"
    by blast
  with h tr il show ?thesis by blast
qed

end
